theory Spec2Isabelle
  imports Main "HOL-Library.Word"
begin

section \<open>omni_var: transactional and session variables\<close>

text \<open>
  A shallow embedding of \<^verbatim>\<open>src/extensions/omni_var/omni_var.c\<close>. The file-level
  statics of the C file are the fields of the record \<open>globals\<close>; every SQL-callable
  function takes the globals and returns its outcome together with the globals it leaves
  behind. An \<^verbatim>\<open>ereport(ERROR, ...)\<close> is the \<open>Inl\<close> branch of the outcome.
  Two things the C file does have no counterpart here, because they do not reach the
  tables: the setting \<^verbatim>\<open>nvars\<close>, which is only the size hint of \<^verbatim>\<open>hash_create\<close>,
  and the \<^verbatim>\<open>NOTICE\<close> that \<^verbatim>\<open>set_session\<close> sends with the name of the type.
\<close>

subsection \<open>Data\<close>

type_synonym Oid = "32 word"
type_synonym TransactionId = "32 word"
type_synonym SubTransactionId = "32 word"
type_synonym Name = string

text \<open>
  A \<open>Datum\<close> is represented by the bytes of the value it denotes: for a by-value type the
  bytes of the machine word itself, for a by-reference type the bytes the pointer leads
  to. A copy made in another memory context is therefore the same \<open>Datum\<close>.
\<close>

type_synonym Datum = "8 word list"

definition InvalidOid :: Oid where
  "InvalidOid = 0"

definition InvalidTransactionId :: TransactionId where
  "InvalidTransactionId = 0"

text \<open>
  \<^verbatim>\<open>struct VariableValue\<close>. The \<^verbatim>\<open>previous\<close> pointer owns the next older entry
  (\<open>None\<close> is \<^verbatim>\<open>NULL\<close>); no entry is referenced from two live places, so the chain
  is a value. The C field \<^verbatim>\<open>value\<close> is the selector \<open>val\<close>.
\<close>

datatype VariableValue = VariableValue
  (isnull: bool)
  (oid: Oid)
  (subxactid: SubTransactionId)
  (val: Datum)
  (previous: "VariableValue option")

text \<open>
  \<^verbatim>\<open>struct Variable\<close>, the hash entry. \<open>variable_value\<close> is the newest entry of the
  chain; \<^verbatim>\<open>initial_allocation\<close> is the storage of the entry written when the
  variable is created and has no field of its own here.
\<close>

record Variable =
  name :: Name
  variable_value :: VariableValue

text \<open>A dynahash table keyed by the name; \<open>None\<close> on a key is "not found".\<close>

type_synonym HTAB = "Name \<rightharpoonup> Variable"

text \<open>
  The statics of the C file, followed by two facts about the memory that
  \<^verbatim>\<open>current_tab\<close> points into. The C file cannot see them; the host decides them:
  \<open>current_tab_released\<close> holds when the transaction in whose memory context the table
  was made has ended, so that the pointer dangles, and \<open>used_after_free\<close> holds once a
  call or a callback has read a table in that condition. The functions of the C file
  neither read nor write the two; \<open>step\<close> below keeps them.
\<close>

record globals =
  last_used_txnid :: TransactionId
  current_tab :: "HTAB option"
  subtransaction_callback_registered :: bool
  transaction_callback_registered :: bool
  session_tab :: "HTAB option"
  current_tab_released :: bool
  used_after_free :: bool

text \<open>The statics as the C file initialises them; nothing has been released or read.\<close>

definition initial_globals :: globals where
  "initial_globals =
     \<lparr>last_used_txnid = InvalidTransactionId, current_tab = None,
      subtransaction_callback_registered = False,
      transaction_callback_registered = False, session_tab = None,
      current_tab_released = False, used_after_free = False\<rparr>"

text \<open>
  What a call reads from its \<^verbatim>\<open>fcinfo\<close>: argument 0 (\<open>None\<close> when
  \<^verbatim>\<open>PG_ARGISNULL(0)\<close>), the type \<^verbatim>\<open>get_fn_expr_argtype(fcinfo->flinfo, 1)\<close>, and
  argument 1 with its null flag.
\<close>

record FunctionCallInfo =
  arg_name :: "Name option"
  arg_type :: Oid
  arg_value :: Datum
  arg_isnull :: bool

text \<open>
  What a call reads from the host: the type catalogue, the transaction manager and the
  allocator. \<open>uninit\<close> is the content of the memory that becomes a new
  \<open>VariableValue\<close> (a chunk from \<^verbatim>\<open>palloc\<close>, or the \<^verbatim>\<open>initial_allocation\<close> of an
  entry that \<^verbatim>\<open>hash_search(HASH_ENTER)\<close> has just made): neither is cleared, so a
  field the code does not assign keeps what \<open>uninit\<close> holds. An allocation of a valid
  size is taken to succeed.
\<close>

record host =
  get_typbyval :: "Oid \<Rightarrow> bool"
  get_typlen :: "Oid \<Rightarrow> int"
  GetTopTransactionId :: TransactionId
  GetTopTransactionIdIfAny :: TransactionId
  GetCurrentSubTransactionId :: SubTransactionId
  uninit :: VariableValue

datatype error =
    NullName
  | UnresolvedType
  | TypeMismatch (expected: Oid) (got: Oid)
  | NullTable
  | InvalidAllocSize

text \<open>
  \<open>NullTable\<close> stands for \<^verbatim>\<open>hash_search\<close> on a \<^verbatim>\<open>NULL\<close> table, which the C code
  does not guard against; \<open>globals_ok\<close> below excludes it. \<open>TypeMismatch\<close> carries the
  two types that \<^verbatim>\<open>errdetail("expected %s, got %s", ...)\<close> prints with
  \<^verbatim>\<open>format_type_be\<close>. \<open>InvalidAllocSize\<close> is the error that \<^verbatim>\<open>palloc\<close> raises
  when it is asked for a size that is not valid.
\<close>

type_synonym outcome = "error + Datum option"

datatype SubXactEvent =
    SUBXACT_EVENT_START_SUB
  | SUBXACT_EVENT_COMMIT_SUB
  | SUBXACT_EVENT_ABORT_SUB
  | SUBXACT_EVENT_PRE_COMMIT_SUB

datatype XactEvent =
    XACT_EVENT_COMMIT
  | XACT_EVENT_PARALLEL_COMMIT
  | XACT_EVENT_ABORT
  | XACT_EVENT_PARALLEL_ABORT
  | XACT_EVENT_PREPARE
  | XACT_EVENT_PRE_COMMIT
  | XACT_EVENT_PARALLEL_PRE_COMMIT
  | XACT_EVENT_PRE_PREPARE

subsection \<open>Storing a value\<close>

text \<open>
  The copy of a by-reference argument into the table's memory context:
  \<^verbatim>\<open>PG_DETOAST_DATUM_COPY\<close> for a varlena (\<^verbatim>\<open>typlen == -1\<close>), otherwise
  \<^verbatim>\<open>memcpy\<close> of \<^verbatim>\<open>typlen\<close> bytes into \<^verbatim>\<open>palloc(typlen)\<close>. \<^verbatim>\<open>typlen\<close> is an
  \<^verbatim>\<open>int16\<close>; a negative one (\<^verbatim>\<open>-2\<close>, a C string) becomes a size beyond every
  valid request, and \<^verbatim>\<open>palloc\<close> raises.
\<close>

definition copy_datum :: "int \<Rightarrow> Datum \<Rightarrow> error + Datum" where
  "copy_datum typlen d =
     (if typlen = - 1 then Inr d
      else if typlen < 0 then Inl InvalidAllocSize
      else Inr (take (nat typlen) d))"

text \<open>
  The calls in which the copy raises: the argument is passed by reference, is not null,
  and its type has a negative length that is not a varlena's (\<open>store_value_fails\<close>
  below). By then the entry has been linked into the table (lines 170-190, 281-297) and
  \<^verbatim>\<open>value\<close>, \<^verbatim>\<open>oid\<close>, \<^verbatim>\<open>isnull\<close> and \<^verbatim>\<open>subxactid\<close> have not been
  assigned.
\<close>

definition alloc_fails :: "host \<Rightarrow> FunctionCallInfo \<Rightarrow> bool" where
  "alloc_fails h fc =
     (\<not> get_typbyval h (arg_type fc) \<and> \<not> arg_isnull fc \<and>
      get_typlen h (arg_type fc) \<noteq> - 1 \<and> get_typlen h (arg_type fc) < 0)"

text \<open>
  The tail shared by \<^verbatim>\<open>set\<close> and \<^verbatim>\<open>set_session\<close>: the \<^verbatim>\<open>value\<close> field is
  assigned for a by-value type, and for a by-reference type only when the argument is
  not null; otherwise it keeps what the entry held. The result is the content of the
  field, or the error of the copy.
\<close>

definition store_value :: "host \<Rightarrow> FunctionCallInfo \<Rightarrow> Datum \<Rightarrow> error + Datum" where
  "store_value h fc old =
     (if get_typbyval h (arg_type fc) then Inr (arg_value fc)
      else if \<not> arg_isnull fc then copy_datum (get_typlen h (arg_type fc)) (arg_value fc)
      else Inr old)"

text \<open>
  \<^verbatim>\<open>set\<close> (lines 134-218), under the name \<open>set_var\<close> since \<open>set\<close> is taken in HOL.
  \<open>vvar\<close> is the entry the branch at lines 173-190 selects, with the \<^verbatim>\<open>previous\<close>
  link that branch gives it; \<open>vvar'\<close> is the entry after lines 192-211. When the
  copy at line 203 raises, the table holds \<open>vvar\<close> under the name.
\<close>

definition set_var :: "host \<Rightarrow> FunctionCallInfo \<Rightarrow> globals \<Rightarrow> outcome \<times> globals" where
  "set_var h fc g =
     (case arg_name fc of
        None \<Rightarrow> (Inl NullName, g)
      | Some nm \<Rightarrow>
          if arg_type fc = InvalidOid then (Inl UnresolvedType, g)
          else
            let txnid = GetTopTransactionId h;
                subtxnid = GetCurrentSubTransactionId h;
                g1 = g\<lparr>transaction_callback_registered := True\<rparr>;
                g2 = g1\<lparr>subtransaction_callback_registered := True\<rparr>;
                g3 = (if last_used_txnid g2 \<noteq> txnid
                      then g2\<lparr>current_tab := Some Map.empty, last_used_txnid := txnid\<rparr>
                      else g2)
            in (case current_tab g3 of
                 None \<Rightarrow> (Inl NullTable, g3)
               | Some tab \<Rightarrow>
                   let vvar =
                         (case tab nm of
                            Some var \<Rightarrow>
                              if subxactid (variable_value var) < subtxnid
                              then VariableValue (isnull (uninit h)) (oid (uninit h))
                                     (subxactid (uninit h)) (val (uninit h))
                                     (Some (variable_value var))
                              else VariableValue (isnull (variable_value var))
                                     (oid (variable_value var))
                                     (subxactid (variable_value var))
                                     (val (variable_value var)) None
                          | None \<Rightarrow>
                              VariableValue (isnull (uninit h)) (oid (uninit h))
                                (subxactid (uninit h)) (val (uninit h)) None)
                   in (case store_value h fc (val vvar) of
                         Inl e \<Rightarrow>
                           (Inl e,
                            g3\<lparr>current_tab :=
                                 Some (tab(nm \<mapsto> \<lparr>name = nm, variable_value = vvar\<rparr>))\<rparr>)
                       | Inr d \<Rightarrow>
                           let vvar' = VariableValue (arg_isnull fc) (arg_type fc) subtxnid
                                         d (previous vvar)
                           in ((if arg_isnull fc then Inr None else Inr (Some (val vvar'))),
                               g3\<lparr>current_tab :=
                                    Some (tab(nm \<mapsto>
                                      \<lparr>name = nm, variable_value = vvar'\<rparr>))\<rparr>))))"

definition default_value :: "FunctionCallInfo \<Rightarrow> outcome" where
  "default_value fc = (if arg_isnull fc then Inr None else Inr (Some (arg_value fc)))"

text \<open>
  The lookup shared by \<^verbatim>\<open>get\<close> and \<^verbatim>\<open>get_session\<close>, from
  \<^verbatim>\<open>hash_search(..., HASH_FIND, &found)\<close> on.
\<close>

definition read_var :: "HTAB \<Rightarrow> Name \<Rightarrow> FunctionCallInfo \<Rightarrow> outcome" where
  "read_var tab nm fc =
     (case tab nm of
        Some var \<Rightarrow>
          let vvar = variable_value var
          in if isnull vvar then Inr None
             else if oid vvar \<noteq> arg_type fc then Inl (TypeMismatch (oid vvar) (arg_type fc))
             else Inr (Some (val vvar))
      | None \<Rightarrow> default_value fc)"

text \<open>\<^verbatim>\<open>get\<close> (lines 220-255), under the name \<open>get_var\<close>.\<close>

definition get_var :: "host \<Rightarrow> FunctionCallInfo \<Rightarrow> globals \<Rightarrow> outcome \<times> globals" where
  "get_var h fc g =
     (case arg_name fc of
        None \<Rightarrow> (Inl NullName, g)
      | Some nm \<Rightarrow>
          if arg_type fc = InvalidOid then (Inl UnresolvedType, g)
          else
            let txnid = GetTopTransactionIdIfAny h
            in if txnid = InvalidTransactionId \<or> last_used_txnid g \<noteq> txnid
               then (default_value fc, g)
               else (case current_tab g of
                       None \<Rightarrow> (Inl NullTable, g)
                     | Some tab \<Rightarrow> (read_var tab nm fc, g)))"

text \<open>
  \<^verbatim>\<open>set_session\<close> (lines 262-325). On a name that is found the entry is a fresh chunk
  of which only \<^verbatim>\<open>value\<close>, \<^verbatim>\<open>oid\<close> and \<^verbatim>\<open>isnull\<close> are assigned; on a new
  name it is the \<^verbatim>\<open>initial_allocation\<close>, and \<^verbatim>\<open>previous\<close> is assigned too.
  \<^verbatim>\<open>subxactid\<close> is assigned on neither path. When the copy at line 310 raises,
  the table holds the entry as it was linked.
\<close>

definition set_session :: "host \<Rightarrow> FunctionCallInfo \<Rightarrow> globals \<Rightarrow> outcome \<times> globals" where
  "set_session h fc g =
     (case arg_name fc of
        None \<Rightarrow> (Inl NullName, g)
      | Some nm \<Rightarrow>
          if arg_type fc = InvalidOid then (Inl UnresolvedType, g)
          else
            let tab = (case session_tab g of None \<Rightarrow> Map.empty | Some t \<Rightarrow> t);
                vvar =
                  (case tab nm of
                     Some var \<Rightarrow> uninit h
                   | None \<Rightarrow>
                       VariableValue (isnull (uninit h)) (oid (uninit h))
                         (subxactid (uninit h)) (val (uninit h)) None)
            in (case store_value h fc (val vvar) of
                  Inl e \<Rightarrow>
                    (Inl e,
                     g\<lparr>session_tab :=
                          Some (tab(nm \<mapsto> \<lparr>name = nm, variable_value = vvar\<rparr>))\<rparr>)
                | Inr d \<Rightarrow>
                    let vvar' = VariableValue (arg_isnull fc) (arg_type fc) (subxactid vvar)
                                  d (previous vvar)
                    in ((if arg_isnull fc then Inr None else Inr (Some (val vvar'))),
                        g\<lparr>session_tab :=
                             Some (tab(nm \<mapsto> \<lparr>name = nm, variable_value = vvar'\<rparr>))\<rparr>)))"

text \<open>\<^verbatim>\<open>get_session\<close> (lines 327-360).\<close>

definition get_session :: "host \<Rightarrow> FunctionCallInfo \<Rightarrow> globals \<Rightarrow> outcome \<times> globals" where
  "get_session h fc g =
     (case arg_name fc of
        None \<Rightarrow> (Inl NullName, g)
      | Some nm \<Rightarrow>
          if arg_type fc = InvalidOid then (Inl UnresolvedType, g)
          else (case session_tab g of
                  None \<Rightarrow> (default_value fc, g)
                | Some tab \<Rightarrow> (read_var tab nm fc, g)))"

subsection \<open>Lifecycle callbacks\<close>

text \<open>
  The inner loop of \<^verbatim>\<open>subtransaction_callback\<close> on one variable, started at its
  newest entry: \<open>None\<close> is the \<^verbatim>\<open>HASH_REMOVE\<close>, \<open>Some v\<close> the entry that
  \<^verbatim>\<open>var->variable_value\<close> points to when the loop is left.
\<close>

fun unwind :: "SubTransactionId \<Rightarrow> VariableValue \<Rightarrow> VariableValue option" where
  "unwind xact_id (VariableValue n t s v p) =
     (if s \<ge> xact_id
      then (case p of None \<Rightarrow> None | Some prev \<Rightarrow> unwind xact_id prev)
      else Some (VariableValue n t s v p))"

text \<open>
  The \<^verbatim>\<open>hash_seq_search\<close> loop visits every entry once; an entry is removed or
  keeps its key, so the scan acts on each key by itself.
\<close>

definition unwind_tab :: "SubTransactionId \<Rightarrow> HTAB \<Rightarrow> HTAB" where
  "unwind_tab xact_id tab =
     (\<lambda>nm. case tab nm of
              None \<Rightarrow> None
            | Some var \<Rightarrow>
                (case unwind xact_id (variable_value var) of
                   None \<Rightarrow> None
                 | Some vvar \<Rightarrow> Some (var\<lparr>variable_value := vvar\<rparr>)))"

fun subtransaction_callback ::
  "SubXactEvent \<Rightarrow> SubTransactionId \<Rightarrow> SubTransactionId \<Rightarrow> globals \<Rightarrow> globals" where
  "subtransaction_callback SUBXACT_EVENT_ABORT_SUB xact_id parent_xact_id g =
     (case current_tab g of
        None \<Rightarrow> g
      | Some tab \<Rightarrow> g\<lparr>current_tab := Some (unwind_tab xact_id tab)\<rparr>)"
| "subtransaction_callback _ xact_id parent_xact_id g = g"

text \<open>
  \<^verbatim>\<open>transaction_callback\<close>; \<open>pg16\<close> is \<^verbatim>\<open>PG_MAJORVERSION_NUM >= 16\<close>. It leaves
  \<^verbatim>\<open>current_tab\<close> and \<^verbatim>\<open>last_used_txnid\<close> as they are.
\<close>

definition xact_end :: "bool \<Rightarrow> globals \<Rightarrow> globals" where
  "xact_end pg16 g =
     (let g1 = (if subtransaction_callback_registered g
                then g\<lparr>subtransaction_callback_registered := False\<rparr> else g)
      in if transaction_callback_registered g1 \<and> pg16
         then g1\<lparr>transaction_callback_registered := False\<rparr> else g1)"

fun transaction_callback :: "bool \<Rightarrow> XactEvent \<Rightarrow> globals \<Rightarrow> globals" where
  "transaction_callback pg16 XACT_EVENT_ABORT g = xact_end pg16 g"
| "transaction_callback pg16 XACT_EVENT_COMMIT g = xact_end pg16 g"
| "transaction_callback pg16 XACT_EVENT_PARALLEL_ABORT g = xact_end pg16 g"
| "transaction_callback pg16 XACT_EVENT_PARALLEL_COMMIT g = xact_end pg16 g"
| "transaction_callback pg16 _ g = g"

subsection \<open>Chains\<close>

fun chain_length :: "VariableValue \<Rightarrow> nat" where
  "chain_length (VariableValue n t s v p) =
     (case p of None \<Rightarrow> 1 | Some prev \<Rightarrow> Suc (chain_length prev))"

text \<open>The subtransaction identifiers met from the head through \<^verbatim>\<open>previous\<close>.\<close>

fun chain_subxactids :: "VariableValue \<Rightarrow> SubTransactionId list" where
  "chain_subxactids (VariableValue n t s v p) =
     s # (case p of None \<Rightarrow> [] | Some prev \<Rightarrow> chain_subxactids prev)"




text \<open>Every variable of the table is a single entry.\<close>

definition tab_single :: "HTAB \<Rightarrow> bool" where
  "tab_single tab = (\<forall>nm var. tab nm = Some var \<longrightarrow> previous (variable_value var) = None)"

text \<open>
  A table exists whenever a transaction has been recorded. \<^verbatim>\<open>set\<close> establishes this,
  since \<^verbatim>\<open>GetTopTransactionId\<close> never yields the invalid identifier.
\<close>

definition globals_ok :: "globals \<Rightarrow> bool" where
  "globals_ok g = (last_used_txnid g \<noteq> InvalidTransactionId \<longrightarrow> current_tab g \<noteq> None)"

text \<open>
  The argument is a value of its type: a by-reference value of fixed length has
  \<^verbatim>\<open>typlen\<close> bytes.
\<close>

definition well_sized :: "host \<Rightarrow> FunctionCallInfo \<Rightarrow> bool" where
  "well_sized h fc =
     (get_typbyval h (arg_type fc) \<or> get_typlen h (arg_type fc) = - 1 \<or>
      int (length (arg_value fc)) = get_typlen h (arg_type fc))"

text \<open>
  The newest entry stored under a name, as \<^verbatim>\<open>hash_search(..., HASH_FIND, ...)\<close>
  followed by \<^verbatim>\<open>var->variable_value\<close> reads it; \<open>None\<close> when there is no table or
  the name is not in it.
\<close>

definition find_value :: "HTAB option \<Rightarrow> Name \<Rightarrow> VariableValue option" where
  "find_value t nm =
     (case t of None \<Rightarrow> None | Some tab \<Rightarrow> map_option variable_value (tab nm))"

subsection \<open>Sessions as sequences of calls and events\<close>

text \<open>
  What reaches the module during a session: calls of its four functions, and the
  transaction manager's events, which the backend delivers to a callback only while it
  is registered.

  The transactional table lives in \<^verbatim>\<open>TopTransactionContext\<close>, which the host releases
  when the top-level transaction ends: after the events for commit, abort and prepare
  and their parallel variants. \<^verbatim>\<open>transaction_callback\<close> does not clear
  \<^verbatim>\<open>current_tab\<close>, so from then on the pointer dangles until \<^verbatim>\<open>set\<close> makes the
  table of another transaction. After commit or abort the subtransaction callback is
  unregistered and \<^verbatim>\<open>set\<close> and \<^verbatim>\<open>get\<close> compare the transaction identifier
  first; after \<^verbatim>\<open>XACT_EVENT_PREPARE\<close> the callback stays registered, and an abort of
  a subtransaction that arrives before the next \<^verbatim>\<open>set\<close> walks the released table.
  What such a read yields is not defined: \<open>step\<close> records it in \<open>used_after_free\<close>
  and leaves the globals otherwise as they were.
\<close>

fun ends_transaction :: "XactEvent \<Rightarrow> bool" where
  "ends_transaction XACT_EVENT_COMMIT = True"
| "ends_transaction XACT_EVENT_PARALLEL_COMMIT = True"
| "ends_transaction XACT_EVENT_ABORT = True"
| "ends_transaction XACT_EVENT_PARALLEL_ABORT = True"
| "ends_transaction XACT_EVENT_PREPARE = True"
| "ends_transaction _ = False"

definition dangling :: "globals \<Rightarrow> bool" where
  "dangling g = (current_tab_released g \<and> current_tab g \<noteq> None)"

datatype event =
    Set host FunctionCallInfo
  | Get host FunctionCallInfo
  | SetSession host FunctionCallInfo
  | GetSession host FunctionCallInfo
  | SubXact SubXactEvent SubTransactionId SubTransactionId
  | Xact bool XactEvent

fun step :: "event \<Rightarrow> globals \<Rightarrow> globals" where
  "step (Set h fc) g =
     (if arg_name fc = None \<or> arg_type fc = InvalidOid then snd (set_var h fc g)
      else if last_used_txnid g \<noteq> GetTopTransactionId h
      then (snd (set_var h fc g))\<lparr>current_tab_released := False\<rparr>
      else if dangling g then g\<lparr>used_after_free := True\<rparr>
      else snd (set_var h fc g))"
| "step (Get h fc) g =
     (if arg_name fc \<noteq> None \<and> arg_type fc \<noteq> InvalidOid \<and>
         GetTopTransactionIdIfAny h \<noteq> InvalidTransactionId \<and>
         last_used_txnid g = GetTopTransactionIdIfAny h \<and> dangling g
      then g\<lparr>used_after_free := True\<rparr>
      else snd (get_var h fc g))"
| "step (SetSession h fc) g = snd (set_session h fc g)"
| "step (GetSession h fc) g = snd (get_session h fc g)"
| "step (SubXact ev xact_id parent_xact_id) g =
     (if subtransaction_callback_registered g
      then (if ev = SUBXACT_EVENT_ABORT_SUB \<and> dangling g
            then g\<lparr>used_after_free := True\<rparr>
            else subtransaction_callback ev xact_id parent_xact_id g)
      else g)"
| "step (Xact pg16 ev) g =
     (let g' = (if transaction_callback_registered g
                then transaction_callback pg16 ev g else g)
      in if ends_transaction ev then g'\<lparr>current_tab_released := True\<rparr> else g')"

fun run :: "event list \<Rightarrow> globals \<Rightarrow> globals" where
  "run [] g = g"
| "run (e # es) g = run es (step e g)"

fun is_SetSession :: "event \<Rightarrow> bool" where
  "is_SetSession (SetSession h fc) = True"
| "is_SetSession _ = False"

text \<open>\<^verbatim>\<open>GetTopTransactionId\<close> assigns an identifier when there is none yet.\<close>

fun host_ok :: "event \<Rightarrow> bool" where
  "host_ok (Set h fc) = (GetTopTransactionId h \<noteq> InvalidTransactionId)"
| "host_ok _ = True"


subsection \<open>Example inputs\<close>

text \<open>
  A host in transaction \<open>T\<close> and subtransaction \<open>S\<close> whose catalogue knows
  \<^verbatim>\<open>int4\<close> (type 23, by value, 4 bytes) and \<^verbatim>\<open>cstring\<close> (type 2275, by reference,
  \<^verbatim>\<open>typlen\<close> -2) and takes every other type for a varlena, and whose allocator hands
  out memory that still holds an older entry. \<open>zeroed_host\<close> is the same host with an
  allocator whose memory holds zeros.
\<close>

definition stale_chunk :: VariableValue where
  "stale_chunk = VariableValue True 0 7 [127] (Some (VariableValue False 0 0 [] None))"

definition example_host :: "TransactionId \<Rightarrow> SubTransactionId \<Rightarrow> host" where
  "example_host T S =
     \<lparr>get_typbyval = (\<lambda>ty. ty = 23),
      get_typlen = (\<lambda>ty. if ty = 23 then 4 else if ty = 2275 then - 2 else - 1),
      GetTopTransactionId = T, GetTopTransactionIdIfAny = T,
      GetCurrentSubTransactionId = S, uninit = stale_chunk\<rparr>"

definition zeroed_chunk :: VariableValue where
  "zeroed_chunk = VariableValue False 0 0 [] None"

definition zeroed_host :: "TransactionId \<Rightarrow> SubTransactionId \<Rightarrow> host" where
  "zeroed_host T S = (example_host T S)\<lparr>uninit := zeroed_chunk\<rparr>"

definition int4_datum :: "8 word \<Rightarrow> Datum" where
  "int4_datum n = [n, 0, 0, 0, 0, 0, 0, 0]"

definition call :: "Name \<Rightarrow> Oid \<Rightarrow> Datum \<Rightarrow> FunctionCallInfo" where
  "call nm ty v = \<lparr>arg_name = Some nm, arg_type = ty, arg_value = v, arg_isnull = False\<rparr>"

definition call_null :: "Name \<Rightarrow> Oid \<Rightarrow> FunctionCallInfo" where
  "call_null nm ty = \<lparr>arg_name = Some nm, arg_type = ty, arg_value = [], arg_isnull = True\<rparr>"

section \<open>Properties\<close>

subsection \<open>Auxiliary facts\<close>

lemmas example_defs = stale_chunk_def example_host_def zeroed_chunk_def zeroed_host_def
  int4_datum_def call_def call_null_def
  initial_globals_def InvalidOid_def InvalidTransactionId_def

lemmas eval_defs = set_var_def get_var_def set_session_def get_session_def read_var_def
  alloc_fails_def dangling_def
  default_value_def store_value_def copy_datum_def find_value_def unwind_tab_def Let_def

lemma store_value_fails:
  "store_value h fc old = Inl e \<longleftrightarrow> e = InvalidAllocSize \<and> alloc_fails h fc"
  by (auto simp: store_value_def copy_datum_def alloc_fails_def)

lemma store_value_Inr:
  "\<not> alloc_fails h fc \<Longrightarrow> store_value h fc old = Inr (projr (store_value h fc old))"
  by (cases "store_value h fc old") (simp_all add: store_value_fails)

lemma store_value_sized:
  "well_sized h fc \<Longrightarrow> \<not> arg_isnull fc \<Longrightarrow> store_value h fc old = Inr (arg_value fc)"
  by (auto simp: well_sized_def store_value_def copy_datum_def)

lemma well_sized_alloc: "well_sized h fc \<Longrightarrow> \<not> alloc_fails h fc"
  by (auto simp: well_sized_def alloc_fails_def)


lemma get_var_globals: "snd (get_var h fc g) = g"
  by (simp add: get_var_def Let_def split: option.splits)

lemma get_session_globals: "snd (get_session h fc g) = g"
  by (simp add: get_session_def split: option.splits)

text \<open>The three ways \<^verbatim>\<open>set\<close> writes an entry.\<close>

lemma set_var_new:
  assumes "arg_name fc = Some nm" "arg_type fc \<noteq> InvalidOid"
    and "last_used_txnid g \<noteq> GetTopTransactionId h \<or>
         (current_tab g \<noteq> None \<and> find_value (current_tab g) nm = None)"
    and "\<not> alloc_fails h fc"
  shows "find_value (current_tab (snd (set_var h fc g))) nm =
           Some (VariableValue (arg_isnull fc) (arg_type fc) (GetCurrentSubTransactionId h)
                   (projr (store_value h fc (val (uninit h)))) None)"
    and "last_used_txnid (snd (set_var h fc g)) = GetTopTransactionId h"
  using assms
  by (auto simp: set_var_def find_value_def store_value_fails Let_def split: sum.splits)

lemma set_var_push:
  assumes "arg_name fc = Some nm" "arg_type fc \<noteq> InvalidOid"
    and "last_used_txnid g = GetTopTransactionId h"
    and "find_value (current_tab g) nm = Some v"
    and "subxactid v < GetCurrentSubTransactionId h"
    and "\<not> alloc_fails h fc"
  shows "find_value (current_tab (snd (set_var h fc g))) nm =
           Some (VariableValue (arg_isnull fc) (arg_type fc) (GetCurrentSubTransactionId h)
                   (projr (store_value h fc (val (uninit h)))) (Some v))"
    and "last_used_txnid (snd (set_var h fc g)) = GetTopTransactionId h"
  using assms
  by (auto simp: set_var_def find_value_def store_value_fails Let_def
      split: option.splits sum.splits)

lemma set_var_in_place:
  assumes "arg_name fc = Some nm" "arg_type fc \<noteq> InvalidOid"
    and "last_used_txnid g = GetTopTransactionId h"
    and "find_value (current_tab g) nm = Some v"
    and "\<not> subxactid v < GetCurrentSubTransactionId h"
    and "\<not> alloc_fails h fc"
  shows "find_value (current_tab (snd (set_var h fc g))) nm =
           Some (VariableValue (arg_isnull fc) (arg_type fc) (GetCurrentSubTransactionId h)
                   (projr (store_value h fc (val v))) None)"
    and "last_used_txnid (snd (set_var h fc g)) = GetTopTransactionId h"
  using assms
  by (auto simp: set_var_def find_value_def store_value_fails Let_def
      split: option.splits sum.splits)

lemma set_var_last_used:
  "arg_name fc \<noteq> None \<Longrightarrow> arg_type fc \<noteq> InvalidOid \<Longrightarrow>
   last_used_txnid (snd (set_var h fc g)) = GetTopTransactionId h"
  by (auto simp: set_var_def Let_def split: option.splits sum.splits)

lemma set_var_session_tab: "session_tab (snd (set_var h fc g)) = session_tab g"
  by (simp add: set_var_def Let_def split: option.splits sum.splits)


text \<open>The two ways \<^verbatim>\<open>set_session\<close> writes an entry.\<close>

lemma set_session_new:
  assumes "arg_name fc = Some nm" "arg_type fc \<noteq> InvalidOid"
    and "find_value (session_tab g) nm = None"
    and "\<not> alloc_fails h fc"
  shows "find_value (session_tab (snd (set_session h fc g))) nm =
           Some (VariableValue (arg_isnull fc) (arg_type fc) (subxactid (uninit h))
                   (projr (store_value h fc (val (uninit h)))) None)"
  using assms
  by (auto simp: set_session_def find_value_def store_value_fails Let_def
      split: option.splits sum.splits)

lemma set_session_replace:
  assumes "arg_name fc = Some nm" "arg_type fc \<noteq> InvalidOid"
    and "find_value (session_tab g) nm = Some v"
    and "\<not> alloc_fails h fc"
  shows "find_value (session_tab (snd (set_session h fc g))) nm =
           Some (VariableValue (arg_isnull fc) (arg_type fc) (subxactid (uninit h))
                   (projr (store_value h fc (val (uninit h)))) (previous (uninit h)))"
  using assms
  by (auto simp: set_session_def find_value_def store_value_fails Let_def
      split: option.splits sum.splits)

text \<open>Reading.\<close>

lemma get_var_absent:
  assumes "arg_name fc = Some nm" "arg_type fc \<noteq> InvalidOid"
    and "GetTopTransactionIdIfAny h = InvalidTransactionId \<or>
         last_used_txnid g \<noteq> GetTopTransactionIdIfAny h \<or>
         (current_tab g \<noteq> None \<and> find_value (current_tab g) nm = None)"
  shows "fst (get_var h fc g) = default_value fc"
  using assms by (auto simp: get_var_def read_var_def find_value_def Let_def)

lemma get_var_present:
  assumes "arg_name fc = Some nm" "arg_type fc \<noteq> InvalidOid"
    and "GetTopTransactionIdIfAny h \<noteq> InvalidTransactionId"
    and "last_used_txnid g = GetTopTransactionIdIfAny h"
    and "find_value (current_tab g) nm = Some v"
  shows "fst (get_var h fc g) =
           (if isnull v then Inr None
            else if oid v \<noteq> arg_type fc then Inl (TypeMismatch (oid v) (arg_type fc))
            else Inr (Some (val v)))"
  using assms
  by (auto simp: get_var_def read_var_def find_value_def Let_def split: option.splits)

lemma get_session_present:
  assumes "arg_name fc = Some nm" "arg_type fc \<noteq> InvalidOid"
    and "find_value (session_tab g) nm = Some v"
  shows "fst (get_session h fc g) =
           (if isnull v then Inr None
            else if oid v \<noteq> arg_type fc then Inl (TypeMismatch (oid v) (arg_type fc))
            else Inr (Some (val v)))"
  using assms
  by (auto simp: get_session_def read_var_def find_value_def Let_def split: option.splits)

text \<open>The callbacks.\<close>

lemma abort_sub_find_value:
  "find_value (current_tab (subtransaction_callback SUBXACT_EVENT_ABORT_SUB S P g)) nm =
     (case find_value (current_tab g) nm of None \<Rightarrow> None | Some v \<Rightarrow> unwind S v)"
  by (auto simp: find_value_def unwind_tab_def split: option.splits)

lemma subtransaction_callback_frame:
  "last_used_txnid (subtransaction_callback ev S P g) = last_used_txnid g"
  "session_tab (subtransaction_callback ev S P g) = session_tab g"
  "(current_tab (subtransaction_callback ev S P g) = None) = (current_tab g = None)"
  by (cases ev; simp split: option.splits)+

lemma transaction_callback_frame:
  "last_used_txnid (transaction_callback pg16 ev g) = last_used_txnid g"
  "current_tab (transaction_callback pg16 ev g) = current_tab g"
  "session_tab (transaction_callback pg16 ev g) = session_tab g"
  by (cases ev; simp add: xact_end_def Let_def)+

lemma unwind_all_ge:
  "\<forall>s \<in> set (chain_subxactids v). S \<le> s \<Longrightarrow> unwind S v = None"
  by (induction S v rule: unwind.induct) (auto split: option.splits)


subsection \<open>Reads\<close>

text \<open>
  C10. \<^verbatim>\<open>get\<close> and \<^verbatim>\<open>get_session\<close> leave the globals (both tables with every
  variable and chain, the recorded transaction, the registration flags) exactly as they
  found them, whatever they return: a stored value, SQL null, the default, or an error.
\<close>

theorem reads_are_pure:
  "snd (get_var h fc g) = g \<and> snd (get_session h fc g) = g"
  by (simp add: get_var_def get_session_def Let_def split: option.splits)

subsection \<open>Rollback\<close>

text \<open>
  C1. Multi-level cascade. In one transaction \<open>T\<close>, a name that was not stored before is
  set in subtransaction \<open>S1\<close>, again in \<open>S2\<close> and again in \<open>S3\<close>, with
  \<open>S1 < S2 < S3\<close>, each call storing its value. After the abort event for \<open>S2\<close>
  alone (none is delivered for \<open>S3\<close>), \<^verbatim>\<open>get\<close> returns the value written in \<open>S1\<close>
  and the chain under the name has length 1.
\<close>

theorem cascade_rollback:
  assumes ids: "S1 < S2" "S2 < S3"
    and txn: "T \<noteq> InvalidTransactionId" "GetTopTransactionId h1 = T"
      "GetTopTransactionId h2 = T" "GetTopTransactionId h3 = T"
      "GetTopTransactionIdIfAny hg = T"
    and sub: "GetCurrentSubTransactionId h1 = S1" "GetCurrentSubTransactionId h2 = S2"
      "GetCurrentSubTransactionId h3 = S3"
    and names: "arg_name fc1 = Some x" "arg_name fc2 = Some x" "arg_name fc3 = Some x"
      "arg_name fcg = Some x"
    and types: "arg_type fc1 \<noteq> InvalidOid" "arg_type fc2 \<noteq> InvalidOid"
      "arg_type fc3 \<noteq> InvalidOid" "arg_type fcg = arg_type fc1"
    and v1: "\<not> arg_isnull fc1" "well_sized h1 fc1"
    and v23: "\<not> alloc_fails h2 fc2" "\<not> alloc_fails h3 fc3"
    and new: "last_used_txnid g \<noteq> T \<or>
              (current_tab g \<noteq> None \<and> find_value (current_tab g) x = None)"
    and g4: "g4 = subtransaction_callback SUBXACT_EVENT_ABORT_SUB S2 P
                    (snd (set_var h3 fc3 (snd (set_var h2 fc2 (snd (set_var h1 fc1 g))))))"
  shows "fst (get_var hg fcg g4) = Inr (Some (arg_value fc1)) \<and>
         map_option chain_length (find_value (current_tab g4) x) = Some 1"
proof -
  let ?e1 = "VariableValue False (arg_type fc1) S1 (arg_value fc1) None"
  let ?g1 = "snd (set_var h1 fc1 g)"
  let ?g2 = "snd (set_var h2 fc2 ?g1)"
  let ?g3 = "snd (set_var h3 fc3 ?g2)"
  have t1: "find_value (current_tab ?g1) x = Some ?e1" "last_used_txnid ?g1 = T"
    using set_var_new [of fc1 x g h1] names types new txn sub v1
    by (simp_all add: store_value_sized well_sized_alloc)
  let ?e2 = "VariableValue (arg_isnull fc2) (arg_type fc2) S2
               (projr (store_value h2 fc2 (val (uninit h2)))) (Some ?e1)"
  have t2: "find_value (current_tab ?g2) x = Some ?e2" "last_used_txnid ?g2 = T"
    using set_var_push [of fc2 x ?g1 h2 ?e1] names types txn sub t1 ids v23 by simp_all
  let ?e3 = "VariableValue (arg_isnull fc3) (arg_type fc3) S3
               (projr (store_value h3 fc3 (val (uninit h3)))) (Some ?e2)"
  have t3: "find_value (current_tab ?g3) x = Some ?e3" "last_used_txnid ?g3 = T"
    using set_var_push [of fc3 x ?g2 h3 ?e2] names types txn sub t2 ids v23 by simp_all
  have u: "unwind S2 ?e3 = Some ?e1"
    using ids by (auto simp: not_le less_imp_le)
  have t4: "find_value (current_tab g4) x = Some ?e1" "last_used_txnid g4 = T"
    unfolding g4
    by (simp_all only: abort_sub_find_value subtransaction_callback_frame t3 option.case u)
  have "fst (get_var hg fcg g4) = Inr (Some (arg_value fc1))"
    using get_var_present [of fcg x hg g4 ?e1] names types txn t4 by simp
  then show ?thesis using t4 by simp
qed

theorem cascade_rollback_witness:
  "fst (get_var (example_host 5 1) (call ''x'' 23 (int4_datum 0))
         (subtransaction_callback SUBXACT_EVENT_ABORT_SUB 2 1
           (snd (set_var (example_host 5 3) (call ''x'' 23 (int4_datum 3))
             (snd (set_var (example_host 5 2) (call ''x'' 23 (int4_datum 2))
               (snd (set_var (example_host 5 1) (call ''x'' 23 (int4_datum 1))
                 initial_globals))))))))
     = Inr (Some (int4_datum 1)) \<and>
   map_option chain_length (find_value (current_tab
         (subtransaction_callback SUBXACT_EVENT_ABORT_SUB 2 1
           (snd (set_var (example_host 5 3) (call ''x'' 23 (int4_datum 3))
             (snd (set_var (example_host 5 2) (call ''x'' 23 (int4_datum 2))
               (snd (set_var (example_host 5 1) (call ''x'' 23 (int4_datum 1))
                 initial_globals)))))))) ''x'') = Some 1"
proof -
  have "fst (get_var (example_host 5 1) (call ''x'' 23 (int4_datum 0))
         (subtransaction_callback SUBXACT_EVENT_ABORT_SUB 2 1
           (snd (set_var (example_host 5 3) (call ''x'' 23 (int4_datum 3))
             (snd (set_var (example_host 5 2) (call ''x'' 23 (int4_datum 2))
               (snd (set_var (example_host 5 1) (call ''x'' 23 (int4_datum 1))
                 initial_globals))))))))
     = Inr (Some (arg_value (call ''x'' 23 (int4_datum 1)))) \<and>
   map_option chain_length (find_value (current_tab
         (subtransaction_callback SUBXACT_EVENT_ABORT_SUB 2 1
           (snd (set_var (example_host 5 3) (call ''x'' 23 (int4_datum 3))
             (snd (set_var (example_host 5 2) (call ''x'' 23 (int4_datum 2))
               (snd (set_var (example_host 5 1) (call ''x'' 23 (int4_datum 1))
                 initial_globals)))))))) ''x'') = Some 1"
    by (rule cascade_rollback [where ?S1.0 = 1 and ?S2.0 = 2 and ?S3.0 = 3 and T = 5])
       (simp_all add: example_defs well_sized_def alloc_fails_def)
  then show ?thesis by (simp add: call_def)
qed

text \<open>
  C3. Full invalidation. When every entry of a variable's chain was written at a
  subtransaction identifier \<open>\<ge> S\<close>, the abort event for \<open>S\<close> removes the variable from
  the table, and a \<^verbatim>\<open>get\<close> of the name that follows returns the caller's default.
\<close>

theorem full_invalidation:
  assumes "current_tab g = Some tab" "tab nm = Some var"
    and "\<forall>s \<in> set (chain_subxactids (variable_value var)). S \<le> s"
    and "arg_name fc = Some nm" "arg_type fc \<noteq> InvalidOid"
    and "g' = subtransaction_callback SUBXACT_EVENT_ABORT_SUB S P g"
  shows "(\<exists>tab'. current_tab g' = Some tab' \<and> tab' nm = None) \<and>
         fst (get_var h fc g') = default_value fc"
proof -
  have "unwind S (variable_value var) = None"
    using assms(3) by (rule unwind_all_ge)
  then have gone: "current_tab g' = Some (unwind_tab S tab) \<and> unwind_tab S tab nm = None"
    using assms(1,2,6) by (simp add: unwind_tab_def)
  then have "fst (get_var h fc g') = default_value fc"
    using assms(4,5) by (intro get_var_absent) (auto simp: find_value_def)
  with gone show ?thesis by simp
qed

theorem full_invalidation_witness:
  "fst (get_var (example_host 5 1) (call ''x'' 23 (int4_datum 9))
         (subtransaction_callback SUBXACT_EVENT_ABORT_SUB 2 1
            (snd (set_var (example_host 5 3) (call ''x'' 23 (int4_datum 2))
               (snd (set_var (example_host 5 2) (call ''x'' 23 (int4_datum 1))
                  initial_globals))))))
     = Inr (Some (int4_datum 9))"
proof -
  let ?g = "snd (set_var (example_host 5 3) (call ''x'' 23 (int4_datum 2))
               (snd (set_var (example_host 5 2) (call ''x'' 23 (int4_datum 1)) initial_globals)))"
  let ?var = "\<lparr>name = ''x'', variable_value = VariableValue False 23 3 (int4_datum 2)
                 (Some (VariableValue False 23 2 (int4_datum 1) None))\<rparr>"
  have a: "current_tab ?g = Some [''x'' \<mapsto> ?var]"
    by (simp add: set_var_def Let_def store_value_def alloc_fails_def example_defs)
  have b: "[''x'' \<mapsto> ?var] ''x'' = Some ?var" by simp
  have c: "\<forall>s \<in> set (chain_subxactids (variable_value ?var)). (2 :: SubTransactionId) \<le> s"
    by simp
  have d: "arg_name (call ''x'' 23 (int4_datum 9)) = Some ''x''"
    "arg_type (call ''x'' 23 (int4_datum 9)) \<noteq> InvalidOid"
    by (simp_all add: example_defs)
  from full_invalidation [OF a b c d refl, where h = "example_host 5 1" and P = 1]
  show ?thesis by (simp add: default_value_def call_def)
qed

subsection \<open>The chain invariant\<close>












subsection \<open>Defaults and type checks\<close>

text \<open>
  C7. A well-formed \<^verbatim>\<open>get\<close> (name given, type of the default resolved) returns the
  caller's default, and changes nothing, whenever no transaction identifier is assigned,
  the table belongs to another transaction, or the name is not in the table. In
  particular, after a \<^verbatim>\<open>set\<close> in one transaction and the event that ends it, a
  \<^verbatim>\<open>get\<close> in a transaction with another identifier returns the default.
\<close>

theorem default_fallback:
  assumes "arg_name fc = Some nm" "arg_type fc \<noteq> InvalidOid"
  shows "(GetTopTransactionIdIfAny h = InvalidTransactionId \<or>
          last_used_txnid g \<noteq> GetTopTransactionIdIfAny h \<or>
          (current_tab g \<noteq> None \<and> find_value (current_tab g) nm = None)
            \<longrightarrow> get_var h fc g = (default_value fc, g)) \<and>
         (arg_name fcs \<noteq> None \<and> arg_type fcs \<noteq> InvalidOid \<and>
          GetTopTransactionIdIfAny h \<noteq> GetTopTransactionId hs
            \<longrightarrow> fst (get_var h fc (transaction_callback pg16 ev (snd (set_var hs fcs g))))
                  = default_value fc)"
proof (intro conjI impI)
  assume "GetTopTransactionIdIfAny h = InvalidTransactionId \<or>
          last_used_txnid g \<noteq> GetTopTransactionIdIfAny h \<or>
          (current_tab g \<noteq> None \<and> find_value (current_tab g) nm = None)"
  with assms have "fst (get_var h fc g) = default_value fc"
    by (rule get_var_absent)
  then show "get_var h fc g = (default_value fc, g)"
    by (simp add: prod_eq_iff get_var_globals)
next
  assume a: "arg_name fcs \<noteq> None \<and> arg_type fcs \<noteq> InvalidOid \<and>
          GetTopTransactionIdIfAny h \<noteq> GetTopTransactionId hs"
  then have "last_used_txnid (transaction_callback pg16 ev (snd (set_var hs fcs g)))
               \<noteq> GetTopTransactionIdIfAny h"
    by (auto simp: transaction_callback_frame set_var_last_used)
  with assms show "fst (get_var h fc (transaction_callback pg16 ev (snd (set_var hs fcs g))))
                  = default_value fc"
    by (intro get_var_absent) auto
qed

theorem default_fallback_witness:
  "arg_name (call ''x'' 23 (int4_datum 9)) = Some ''x'' \<and>
   arg_type (call ''x'' 23 (int4_datum 9)) \<noteq> InvalidOid \<and>
   GetTopTransactionIdIfAny (example_host 6 1) \<noteq> GetTopTransactionId (example_host 5 1) \<and>
   get_var (example_host 6 1) (call ''x'' 23 (int4_datum 9)) initial_globals
     = (Inr (Some (int4_datum 9)), initial_globals) \<and>
   fst (get_var (example_host 6 1) (call ''x'' 23 (int4_datum 9))
          (transaction_callback True XACT_EVENT_COMMIT
             (snd (set_var (example_host 5 1) (call ''x'' 23 (int4_datum 1)) initial_globals))))
     = Inr (Some (int4_datum 9))"
proof -
  have a: "arg_name (call ''x'' 23 (int4_datum 9)) = Some ''x''"
    and b: "arg_type (call ''x'' 23 (int4_datum 9)) \<noteq> InvalidOid"
    by (simp_all add: example_defs)
  have c: "last_used_txnid initial_globals \<noteq> GetTopTransactionIdIfAny (example_host 6 1)"
    and d: "arg_name (call ''x'' 23 (int4_datum 1)) \<noteq> None \<and>
       arg_type (call ''x'' 23 (int4_datum 1)) \<noteq> InvalidOid \<and>
       GetTopTransactionIdIfAny (example_host 6 1) \<noteq> GetTopTransactionId (example_host 5 1)"
    by (simp_all add: example_defs)
  from default_fallback [OF a b, where h = "example_host 6 1" and g = initial_globals
      and fcs = "call ''x'' 23 (int4_datum 1)" and hs = "example_host 5 1" and ?pg16.0 = True
      and ev = XACT_EVENT_COMMIT] c d
  show ?thesis using a b by (simp add: default_value_def call_def)
qed

text \<open>
  C4, as the code has it. For a name stored in the table that the call resolves and a
  resolved requested type that differs from the stored one: when the stored value is not
  null the call fails with \<open>TypeMismatch\<close>, carrying the stored and the requested type;
  when the stored value is SQL null the call returns SQL null, since the null test comes
  before the type test. \<^verbatim>\<open>get_session\<close> does the same on the session table.
\<close>

theorem type_mismatch:
  assumes "arg_name fc = Some nm" "arg_type fc \<noteq> InvalidOid" "oid v \<noteq> arg_type fc"
  shows "(GetTopTransactionIdIfAny h \<noteq> InvalidTransactionId \<and>
          last_used_txnid g = GetTopTransactionIdIfAny h \<and>
          find_value (current_tab g) nm = Some v
            \<longrightarrow> fst (get_var h fc g) =
                  (if isnull v then Inr None
                   else Inl (TypeMismatch (oid v) (arg_type fc)))) \<and>
         (find_value (session_tab g) nm = Some v
            \<longrightarrow> fst (get_session h fc g) =
                  (if isnull v then Inr None
                   else Inl (TypeMismatch (oid v) (arg_type fc))))"
  using assms get_var_present [of fc nm h g v] get_session_present [of fc nm g v h]
  by simp

theorem type_mismatch_witness:
  "fst (get_var (example_host 5 1) (call ''x'' 25 [104, 105])
         (snd (set_var (example_host 5 1) (call ''x'' 23 (int4_datum 1)) initial_globals)))
     = Inl (TypeMismatch 23 25) \<and>
   fst (get_session (example_host 5 1) (call ''x'' 25 [104, 105])
         (snd (set_session (example_host 5 1) (call ''x'' 23 (int4_datum 1)) initial_globals)))
     = Inl (TypeMismatch 23 25)"
proof -
  let ?g = "snd (set_var (example_host 5 1) (call ''x'' 23 (int4_datum 1)) initial_globals)"
  let ?s = "snd (set_session (example_host 5 1) (call ''x'' 23 (int4_datum 1)) initial_globals)"
  let ?fc = "call ''x'' 25 [104, 105]"
  let ?v = "VariableValue False 23 1 (int4_datum 1) None"
  let ?w = "VariableValue False 23 7 (int4_datum 1) None"
  have a: "arg_name ?fc = Some ''x''" "arg_type ?fc \<noteq> InvalidOid"
    and b: "oid ?v \<noteq> arg_type ?fc" "oid ?w \<noteq> arg_type ?fc"
    by (simp_all add: example_defs)
  have c: "GetTopTransactionIdIfAny (example_host 5 1) \<noteq> InvalidTransactionId \<and>
           last_used_txnid ?g = GetTopTransactionIdIfAny (example_host 5 1) \<and>
           find_value (current_tab ?g) ''x'' = Some ?v"
    by (simp add: eval_defs example_defs)
  have d: "find_value (session_tab ?s) ''x'' = Some ?w"
    by (simp add: eval_defs example_defs)
  from type_mismatch [OF a b(1), of "example_host 5 1" ?g] c
  have "fst (get_var (example_host 5 1) ?fc ?g) = Inl (TypeMismatch 23 25)"
    by (simp add: call_def)
  moreover from type_mismatch [OF a b(2), of "example_host 5 1" ?s] d
  have "fst (get_session (example_host 5 1) ?fc ?s) = Inl (TypeMismatch 23 25)"
    by (simp add: call_def)
  ultimately show ?thesis by simp
qed

text \<open>
  The claim as it is written fails on a stored null: after \<^verbatim>\<open>set('x', null::int4)\<close>,
  a \<^verbatim>\<open>get\<close> that asks for \<^verbatim>\<open>text\<close> (type 25) finds type 23 stored and returns SQL
  null, not an error; likewise for the session pair.
\<close>

theorem type_mismatch_counterexample:
  "map_option oid (find_value (current_tab
       (snd (set_var (example_host 5 1) (call_null ''x'' 23) initial_globals))) ''x'') = Some 23 \<and>
   last_used_txnid (snd (set_var (example_host 5 1) (call_null ''x'' 23) initial_globals))
     = GetTopTransactionIdIfAny (example_host 5 1) \<and>
   arg_type (call ''x'' 25 [104, 105]) = 25 \<and>
   fst (get_var (example_host 5 1) (call ''x'' 25 [104, 105])
         (snd (set_var (example_host 5 1) (call_null ''x'' 23) initial_globals))) = Inr None \<and>
   map_option oid (find_value (session_tab
       (snd (set_session (example_host 5 1) (call_null ''x'' 23) initial_globals))) ''x'') = Some 23 \<and>
   fst (get_session (example_host 5 1) (call ''x'' 25 [104, 105])
         (snd (set_session (example_host 5 1) (call_null ''x'' 23) initial_globals))) = Inr None"
  by (simp add: eval_defs example_defs)

subsection \<open>What \<^verbatim>\<open>set\<close> and \<^verbatim>\<open>set_session\<close> return\<close>



lemma set_var_globals_ok:
  "GetTopTransactionId h \<noteq> InvalidTransactionId \<Longrightarrow> globals_ok g \<Longrightarrow>
   globals_ok (snd (set_var h fc g))"
  by (auto simp: set_var_def globals_ok_def Let_def split: option.splits sum.splits)

lemma globals_ok_flags:
  "globals_ok (g\<lparr>current_tab_released := b\<rparr>) = globals_ok g"
  "globals_ok (g\<lparr>used_after_free := b\<rparr>) = globals_ok g"
  by (simp_all add: globals_ok_def)

lemma step_globals_ok: "host_ok e \<Longrightarrow> globals_ok g \<Longrightarrow> globals_ok (step e g)"
proof (cases e)
  case (Set h fc)
  then show "host_ok e \<Longrightarrow> globals_ok g \<Longrightarrow> ?thesis"
    using set_var_globals_ok [of h g fc] by (simp add: globals_ok_flags)
next
  case (Get h fc)
  then show "globals_ok g \<Longrightarrow> ?thesis"
    by (simp add: globals_ok_flags get_var_globals)
next
  case (SetSession h fc)
  then show "globals_ok g \<Longrightarrow> ?thesis"
    by (auto simp: globals_ok_def set_session_def Let_def split: option.splits sum.splits)
next
  case (GetSession h fc)
  then show "globals_ok g \<Longrightarrow> ?thesis"
    by (simp add: get_session_globals)
next
  case (SubXact ev S P)
  then show "globals_ok g \<Longrightarrow> ?thesis"
    by (cases ev) (auto simp: globals_ok_def split: option.splits)
next
  case (Xact pg16 ev)
  then show "globals_ok g \<Longrightarrow> ?thesis"
    by (simp add: globals_ok_def transaction_callback_frame Let_def)
qed

text \<open>The state condition of the next theorem holds throughout a session.\<close>

lemma globals_ok_reachable:
  "list_all host_ok es \<Longrightarrow> globals_ok (run es initial_globals)"
proof -
  have "list_all host_ok es \<Longrightarrow> globals_ok g \<Longrightarrow> globals_ok (run es g)" for g
    by (induction es arbitrary: g) (simp_all add: step_globals_ok)
  moreover have "globals_ok initial_globals"
    by (simp add: globals_ok_def initial_globals_def)
  ultimately show "list_all host_ok es \<Longrightarrow> globals_ok (run es initial_globals)"
    by blast
qed




subsection \<open>The session table\<close>

lemma step_session_tab:
  "\<not> is_SetSession e \<Longrightarrow> session_tab (step e g) = session_tab g"
  by (cases e)
     (simp_all add: set_var_session_tab get_var_globals get_session_globals
        subtransaction_callback_frame transaction_callback_frame)

lemma set_session_session_tab:
  assumes "session_tab g = session_tab g'"
  shows "session_tab (snd (set_session h fc g)) = session_tab (snd (set_session h fc g'))"
proof (cases "arg_name fc")
  case None
  then show ?thesis using assms by (simp add: set_session_def)
next
  case (Some nm)
  show ?thesis
  proof (cases "arg_type fc = InvalidOid")
    case True
    then show ?thesis using assms Some by (simp add: set_session_def)
  next
    case False
    then show ?thesis
      unfolding set_session_def Let_def assms using Some by (simp split: sum.splits)
  qed
qed

lemma run_session_tab:
  "session_tab g = session_tab g' \<Longrightarrow>
   session_tab (run es g) = session_tab (run (filter is_SetSession es) g')"
proof (induction es arbitrary: g g')
  case Nil
  then show ?case by simp
next
  case (Cons e es)
  show ?case
  proof (cases "is_SetSession e")
    case True
    then obtain h fc where e: "e = SetSession h fc" by (cases e) simp_all
    have "session_tab (step e g) = session_tab (step e g')"
      unfolding e step.simps using Cons.prems by (rule set_session_session_tab)
    then have "session_tab (run es (step e g))
                 = session_tab (run (filter is_SetSession es) (step e g'))"
      by (rule Cons.IH)
    moreover have "filter is_SetSession (e # es) = e # filter is_SetSession es"
      using True by simp
    ultimately show ?thesis by (simp only: run.simps)
  next
    case False
    then have "session_tab (step e g) = session_tab g"
      by (rule step_session_tab)
    then have "session_tab (step e g) = session_tab g'"
      using Cons.prems by (rule trans)
    then have "session_tab (run es (step e g))
                 = session_tab (run (filter is_SetSession es) g')"
      by (rule Cons.IH)
    moreover have "filter is_SetSession (e # es) = filter is_SetSession es"
      using False by simp
    ultimately show ?thesis by (simp only: run.simps)
  qed
qed

lemma get_session_session_tab:
  assumes "session_tab g = session_tab g'" 
  shows "fst (get_session h fc g) = fst (get_session h fc g')"
  unfolding get_session_def assms by (simp split: option.splits)

text \<open>
  C8. Session bypass. The subtransaction callback leaves the session table as it is, for
  every event. Hence, after any sequence of calls and events, the session table is the
  one that the \<^verbatim>\<open>set_session\<close> calls of the sequence alone produce, and
  \<^verbatim>\<open>get_session\<close> returns what it returns after those calls alone.
\<close>

theorem session_bypass:
  "session_tab (subtransaction_callback ev S P g) = session_tab g \<and>
   session_tab (run es g) = session_tab (run (filter is_SetSession es) g) \<and>
   fst (get_session h fc (run es g)) = fst (get_session h fc (run (filter is_SetSession es) g))"
proof -
  have a: "session_tab (run es g) = session_tab (run (filter is_SetSession es) g)"
    by (rule run_session_tab) (rule refl)
  then have b: "fst (get_session h fc (run es g))
                  = fst (get_session h fc (run (filter is_SetSession es) g))"
    by (rule get_session_session_tab)
  have c: "session_tab (subtransaction_callback ev S P g) = session_tab g"
    by (rule subtransaction_callback_frame)
  from a b c show ?thesis by (intro conjI)
qed

text \<open>
  The example of the specification: \<^verbatim>\<open>set_session('s', 1)\<close>, a subtransaction opens,
  \<^verbatim>\<open>set_session('s', 2)\<close>, the subtransaction aborts, and \<^verbatim>\<open>get_session('s')\<close>
  returns 2. A \<^verbatim>\<open>set\<close> comes first so that the callback is registered when the
  events arrive.
\<close>

theorem session_bypass_witness:
  "fst (get_session (example_host 5 1) (call ''s'' 23 (int4_datum 9))
         (run [Set (example_host 5 1) (call ''x'' 23 (int4_datum 7)),
               SetSession (example_host 5 1) (call ''s'' 23 (int4_datum 1)),
               SubXact SUBXACT_EVENT_START_SUB 2 1,
               SetSession (example_host 5 2) (call ''s'' 23 (int4_datum 2)),
               SubXact SUBXACT_EVENT_ABORT_SUB 2 1] initial_globals))
     = Inr (Some (int4_datum 2))"
proof -
  let ?es = "[Set (example_host 5 1) (call ''x'' 23 (int4_datum 7)),
               SetSession (example_host 5 1) (call ''s'' 23 (int4_datum 1)),
               SubXact SUBXACT_EVENT_START_SUB 2 1,
               SetSession (example_host 5 2) (call ''s'' 23 (int4_datum 2)),
               SubXact SUBXACT_EVENT_ABORT_SUB 2 1]"
  have "fst (get_session (example_host 5 1) (call ''s'' 23 (int4_datum 9))
              (run ?es initial_globals))
        = fst (get_session (example_host 5 1) (call ''s'' 23 (int4_datum 9))
              (run (filter is_SetSession ?es) initial_globals))"
    using session_bypass [of SUBXACT_EVENT_ABORT_SUB 2 1 initial_globals ?es] by blast
  also have "\<dots> = Inr (Some (int4_datum 2))"
    by (simp add: eval_defs example_defs)
  finally show ?thesis .
qed



lemma set_session_single_when_new:
  assumes "arg_name fc = Some nm" "arg_type fc \<noteq> InvalidOid"
    and "find_value (session_tab g) nm = None"
  shows "map_option previous (find_value (session_tab (snd (set_session h fc g))) nm)
           = Some None"
  using assms
  by (auto simp: set_session_def find_value_def store_value_fails Let_def
      split: option.splits sum.splits)

text \<open>
  C5 at a concrete input. \<^verbatim>\<open>set_session('s', 1)\<close> creates the variable with
  \<^verbatim>\<open>previous = NULL\<close>. \<^verbatim>\<open>set_session('s', 2)\<close> finds it and writes the new value
  into a chunk from \<^verbatim>\<open>palloc\<close>, whose \<^verbatim>\<open>previous\<close> field it never assigns: the
  head of the variable then carries whatever link the chunk held, here a non-null one,
  and the table is not one of single entries.
\<close>

theorem set_session_overwrite_previous:
  "map_option previous (find_value (session_tab
      (run [SetSession (example_host 5 1) (call ''s'' 23 (int4_datum 1))] initial_globals))
      ''s'') = Some None \<and>
   map_option previous (find_value (session_tab
      (run [SetSession (example_host 5 1) (call ''s'' 23 (int4_datum 1)),
            SetSession (example_host 5 1) (call ''s'' 23 (int4_datum 2))] initial_globals))
      ''s'') = Some (previous (uninit (example_host 5 1))) \<and>
   previous (uninit (example_host 5 1)) \<noteq> None \<and>
   map_option chain_length (find_value (session_tab
      (run [SetSession (example_host 5 1) (call ''s'' 23 (int4_datum 1)),
            SetSession (example_host 5 1) (call ''s'' 23 (int4_datum 2))] initial_globals))
      ''s'') = Some 2"
  by (simp add: eval_defs example_defs)

subsection \<open>Overwriting in place\<close>

text \<open>
  C2 at a concrete input. After \<^verbatim>\<open>set('x', 1)\<close> in subtransaction 1 and
  \<^verbatim>\<open>set('x', 2)\<close> in subtransaction 2 the chain holds the identifiers 2 and 1. A
  second write in subtransaction 2, \<^verbatim>\<open>set('x', 3)\<close>, takes the branch that overwrites
  the head, and that branch also assigns \<^verbatim>\<open>previous = NULL\<close>: the entry of
  subtransaction 1 is cut off. When subtransaction 2 then aborts the variable is removed,
  and \<^verbatim>\<open>get\<close> returns the default 9 where the value 1 was to be restored.
\<close>

theorem in_place_overwrite_drops_previous:
  "map_option chain_subxactids (find_value (current_tab
      (run [Set (example_host 5 1) (call ''x'' 23 (int4_datum 1)),
            Set (example_host 5 2) (call ''x'' 23 (int4_datum 2))] initial_globals))
      ''x'') = Some [2, 1] \<and>
   map_option chain_subxactids (find_value (current_tab
      (run [Set (example_host 5 1) (call ''x'' 23 (int4_datum 1)),
            Set (example_host 5 2) (call ''x'' 23 (int4_datum 2)),
            Set (example_host 5 2) (call ''x'' 23 (int4_datum 3))] initial_globals))
      ''x'') = Some [2] \<and>
   fst (get_var (example_host 5 1) (call ''x'' 23 (int4_datum 9))
      (run [Set (example_host 5 1) (call ''x'' 23 (int4_datum 1)),
            Set (example_host 5 2) (call ''x'' 23 (int4_datum 2)),
            Set (example_host 5 2) (call ''x'' 23 (int4_datum 3)),
            SubXact SUBXACT_EVENT_ABORT_SUB 2 1] initial_globals))
     = Inr (Some (int4_datum 9))"
  by (simp add: eval_defs example_defs)

end
